theory Spec2Isabelle
  imports Main "HOL-Library.AList"
begin

section \<open>Values, exceptions and messages\<close>

text \<open>
  Python values that the model can place in a tool call's argument mapping. Nested
  values (lists, structs) are not modelled. \<open>truthy\<close> is Python's truth test
  (\<open>not v\<close> is its negation) and \<open>py_eq\<close> is Python's \<open>==\<close>, under which
  \<open>True == 1\<close> and \<open>False == 0\<close>.
\<close>

datatype pyval = PNone | PBool bool | PNum int | PStr string

fun truthy :: "pyval \<Rightarrow> bool" where
  "truthy PNone = False"
| "truthy (PBool b) = b"
| "truthy (PNum n) = (n \<noteq> 0)"
| "truthy (PStr s) = (s \<noteq> [])"

fun py_eq :: "pyval \<Rightarrow> pyval \<Rightarrow> bool" where
  "py_eq (PBool b) (PNum n) = (n = (if b then 1 else 0))"
| "py_eq (PNum n) (PBool b) = (n = (if b then 1 else 0))"
| "py_eq a b = (a = b)"

text \<open>
  An exception carries the text that \<open>str(e)\<close> gives. The constructor records where it
  was raised: by \<open>chat.send_message\<close> (the Model Gateway) or by the call
  \<open>function_to_call(**tool_args)\<close> (argument binding or the handler's body).
\<close>

datatype pyexn = GatewayError string | HandlerError string

fun str_exn :: "pyexn \<Rightarrow> string" where
  "str_exn (GatewayError m) = m"
| "str_exn (HandlerError m) = m"

text \<open>
  Every tool returns a Python \<open>str\<close>. \<open>Dumps j\<close> is the string \<open>json.dumps(j)\<close>;
  \<open>json.loads\<close> of that string is \<open>j\<close> again. Only two shapes of JSON value occur in
  \<open>tools.py\<close>: a list of strings and an object with string fields.
\<close>

datatype json = JList "string list" | JObject "(string \<times> string) list"

datatype tool_output = Plain string | Dumps json

type_synonym args = "(string \<times> pyval) list"

datatype function_call = FunctionCall string args

text \<open>
  A response of the gateway: \<open>response.candidates[i].content.parts\<close> is \<open>candidates r ! i\<close>.
  A part's \<open>function_call\<close> is \<open>None\<close> when \<open>not part.function_call\<close> holds, and
  \<open>part_text\<close> is its \<open>text\<close>, the empty string when the part carries no text.
\<close>

record part =
  part_text :: string
  function_call :: "function_call option"

record response =
  candidates :: "part list list"

datatype payload = Result tool_output | Error string

datatype message = UserMessage string | FunctionResponse string payload

datatype role = User | Model

record turn =
  role :: role
  parts :: "string list"

section \<open>The environment and the process state\<close>

text \<open>
  The collaborators outside the repository are parameters. \<open>gateway env i\<close> is what the
  \<open>i\<close>-th call of \<open>send_message\<close> in the process does: it returns a response or raises
  with a message. \<open>ext_tool env i name a\<close> is what the body of one of the five handlers
  bound to the network or to the knowledge base does on the arguments \<open>a\<close>, as the
  \<open>i\<close>-th handler body entered in the process. \<open>validation_msg env v\<close> is the text of
  the error with which \<open>Document\<close> rejects a \<open>page_content\<close> that is not a string.
\<close>

record env =
  gateway :: "nat \<Rightarrow> string + response"
  ext_tool :: "nat \<Rightarrow> string \<Rightarrow> args \<Rightarrow> pyexn + tool_output"
  validation_msg :: "pyval \<Rightarrow> string"

text \<open>
  A stored preference document: its \<open>page_content\<close> and \<open>metadata.get("user_id")\<close>
  (\<open>PNone\<close> when the key is absent). The store holds the documents in order; when
  \<open>fault\<close> is \<open>Some m\<close>, each access to the store raises with message \<open>m\<close>.
\<close>

record doc =
  page_content :: string
  meta_user_id :: pyval

record prefs_store =
  docstore :: "doc list"
  fault :: "string option"

text \<open>
  The state of the process: the global \<open>chat_sessions\<close> (a session is its history),
  the global \<open>prefs_db\<close>, the messages handed to \<open>send_message\<close> so far, and one entry
  for each handler body entered (the \<open>[Tool Call]\<close> line each body prints first).
\<close>

record state =
  chat_sessions :: "string \<rightharpoonup> turn list"
  prefs_db :: prefs_store
  sent :: "message list"
  tool_calls :: "(string \<times> args) list"

section \<open>tools.py\<close>

definition system_error_obj :: json where
  "system_error_obj = JObject [(''error'', ''System error: user_id was not provided to tool.'')]"

definition log_call :: "string \<Rightarrow> args \<Rightarrow> state \<Rightarrow> state" where
  "log_call name a st = st\<lparr>tool_calls := tool_calls st @ [(name, a)]\<rparr>"

text \<open>\<open>load_preferences(user_id)\<close>: the value given to \<open>json.dumps\<close>, and the state.\<close>

definition load_preferences :: "pyval \<Rightarrow> state \<Rightarrow> json \<times> state" where
  "load_preferences user_id st0 =
     (let st = log_call ''load_preferences'' [(''user_id'', user_id)] st0 in
      if \<not> truthy user_id then (system_error_obj, st)
      else (case fault (prefs_db st) of
              Some m \<Rightarrow> (JObject [(''error'', m)], st)
            | None \<Rightarrow>
               (if docstore (prefs_db st) = [] then (JList [], st)
                else (let user_prefs =
                            map page_content
                              (filter (\<lambda>d. py_eq (meta_user_id d) user_id) (docstore (prefs_db st)))
                      in if user_prefs = [] then (JList [], st) else (JList user_prefs, st)))))"

text \<open>\<open>save_preference(preference, user_id)\<close>.\<close>

definition save_preference :: "pyval \<Rightarrow> pyval \<Rightarrow> env \<Rightarrow> state \<Rightarrow> tool_output \<times> state" where
  "save_preference preference user_id e st0 =
     (let st = log_call ''save_preference'' [(''user_id'', user_id), (''preference'', preference)] st0 in
      if \<not> truthy user_id then (Dumps system_error_obj, st)
      else (case preference of
              PStr p \<Rightarrow>
               (case fault (prefs_db st) of
                  Some m \<Rightarrow> (Plain (''Error saving preference: '' @ m), st)
                | None \<Rightarrow>
                   (Plain (''Successfully saved preference: '' @ [CHR 0x27] @ p @ [CHR 0x27]),
                    st\<lparr>prefs_db := (prefs_db st)\<lparr>docstore :=
                          docstore (prefs_db st) @ [\<lparr>page_content = p, meta_user_id = user_id\<rparr>]\<rparr>\<rparr>))
            | _ \<Rightarrow> (Plain (''Error saving preference: '' @ validation_msg e preference), st)))"

subsection \<open>Calling a handler with keyword arguments\<close>

text \<open>
  \<open>available_tools\<close> with, for each function, its parameters in order and those without a
  default.
\<close>

definition available_tools :: "(string \<times> string list \<times> string list) list" where
  "available_tools =
     [(''get_weather'', [''city''], [''city'']),
      (''web_search'', [''query''], [''query'']),
      (''find_hotels'', [''city'', ''preferences''], [''city'']),
      (''search_knowledge'', [''query''], [''query'']),
      (''save_preference'', [''preference'', ''user_id''], [''preference'']),
      (''load_preferences'', [''user_id''], []),
      (''find_flights'', [''origin_city'', ''destination_city'', ''travel_date''],
         [''origin_city'', ''destination_city'', ''travel_date''])]"

definition quoted :: "string \<Rightarrow> string" where
  "quoted s = [CHR 0x27] @ s @ [CHR 0x27]"

fun name_list :: "string list \<Rightarrow> string" where
  "name_list [] = []"
| "name_list [a] = quoted a"
| "name_list [a, b] = quoted a @ '' and '' @ quoted b"
| "name_list (a # b # c # cs) =
     (if cs = [] then quoted a @ '', '' @ quoted b @ '', and '' @ quoted c
      else quoted a @ '', '' @ name_list (b # c # cs))"

text \<open>The count of missing parameters, in decimal; no function has ten parameters.\<close>

definition show_count :: "nat \<Rightarrow> string" where
  "show_count n = [''0123456789'' ! n]"

definition missing_msg :: "string \<Rightarrow> string list \<Rightarrow> string" where
  "missing_msg fname ms =
     fname @ ''() missing '' @ show_count (length ms) @ '' required positional argument''
       @ (if length ms = 1 then '': '' else ''s: '') @ name_list ms"

definition unexpected_msg :: "string \<Rightarrow> string \<Rightarrow> string" where
  "unexpected_msg fname k = fname @ ''() got an unexpected keyword argument '' @ quoted k"

text \<open>
  \<open>f(**tool_args)\<close>: a key that is no parameter of \<open>f\<close> raises \<open>TypeError\<close> first, then a
  parameter without default that has no value does.
\<close>

definition bind_args :: "string \<Rightarrow> string list \<Rightarrow> string list \<Rightarrow> args \<Rightarrow> pyexn + unit" where
  "bind_args fname params required a =
     (case filter (\<lambda>k. k \<notin> set params) (map fst a) of
        k # _ \<Rightarrow> Inl (HandlerError (unexpected_msg fname k))
      | [] \<Rightarrow>
         (case filter (\<lambda>p. map_of a p = None) required of
            [] \<Rightarrow> Inr ()
          | ms \<Rightarrow> Inl (HandlerError (missing_msg fname ms))))"

definition arg_or_none :: "args \<Rightarrow> string \<Rightarrow> pyval" where
  "arg_or_none a k = (case map_of a k of None \<Rightarrow> PNone | Some v \<Rightarrow> v)"

text \<open>
  \<open>tool_registry[tool_name](**tool_args)\<close> for a name of the registry. The two
  preference tools are the functions above; the other five are the environment's. For a
  name outside the registry the lookup raises \<open>KeyError\<close>; the loop tests the name
  before and never gets there.
\<close>

definition call_tool :: "env \<Rightarrow> string \<Rightarrow> args \<Rightarrow> state \<Rightarrow> (pyexn + tool_output) \<times> state" where
  "call_tool e tool_name a st =
     (case map_of available_tools tool_name of
        None \<Rightarrow> (Inl (HandlerError ''KeyError''), st)
      | Some (params, required) \<Rightarrow>
         (case bind_args tool_name params required a of
            Inl x \<Rightarrow> (Inl x, st)
          | Inr _ \<Rightarrow>
             (if tool_name = ''save_preference'' then
                (let (out, st') = save_preference (arg_or_none a ''preference'')
                                    (arg_or_none a ''user_id'') e st
                 in (Inr out, st'))
              else if tool_name = ''load_preferences'' then
                (let (j, st') = load_preferences (arg_or_none a ''user_id'') st
                 in (Inr (Dumps j), st'))
              else (ext_tool e (length (tool_calls st)) tool_name a,
                    log_call tool_name a st))))"

section \<open>main.py\<close>

definition tool_registry :: "string list" where
  "tool_registry = map fst available_tools"

definition policy_pair :: "turn list" where
  "policy_pair =
     [\<lparr>role = User, parts =
         [''SYSTEM_RULE: You are a helpful and expert travel planning agent. ''
          @ ''Your goal is to help the user plan a trip to any city. ''
          @ ''First, understand their preferences (like '' @ quoted ''vegetarian''
          @ '' or '' @ quoted ''museums'' @ ''). ''
          @ ''Then, use your tools (web_search, get_weather) to build a plan. ''
          @ ''After you have presented the plan, ALWAYS proactively ask the user if they would also like help finding hotels OR flights for their trip.''
          @ ''CRITICAL RULE: You must *never* show your internal reasoning, thoughts, or the specific tools you are calling (e.g., ''
          @ quoted ''Tool Call: web_search...'' @ ''). ''
          @ ''You must synthesize the information from your tools and present only the final, helpful answer directly to the user.'']\<rparr>,
      \<lparr>role = Model, parts =
         [''Understood. I am a helpful travel agent. I will follow your rules.'']\<rparr>]"

fun join :: "string \<Rightarrow> string list \<Rightarrow> string" where
  "join sep [] = []"
| "join sep [x] = x"
| "join sep (x # y # ys) = x @ sep @ join sep (y # ys)"

definition prefs_turns :: "string list \<Rightarrow> turn list" where
  "prefs_turns prefs =
     [\<lparr>role = User, parts =
         [''Please remember these are my long-term preferences: '' @ join ''; '' prefs]\<rparr>,
      \<lparr>role = Model, parts = [''Understood. I have loaded your preferences.'']\<rparr>]"

text \<open>
  \<open>get_chat_session(user_id)\<close>: the session and the state. The \<open>except\<close> of step 2 has
  no branch here: \<open>load_preferences\<close> does not raise, \<open>json.loads\<close> is applied to the
  output of \<open>json.dumps\<close>, and the list joined is a list of strings.
\<close>

definition get_chat_session :: "string \<Rightarrow> state \<Rightarrow> turn list \<times> state" where
  "get_chat_session user_id st =
     (case chat_sessions st user_id of
        Some chat \<Rightarrow> (chat, st)
      | None \<Rightarrow>
         (let (prefs, st1) = load_preferences (PStr user_id) st;
              history = (case prefs of
                           JList ps \<Rightarrow> (if length ps > 0 then policy_pair @ prefs_turns ps
                                        else policy_pair)
                         | JObject _ \<Rightarrow> policy_pair)
          in (history, st1\<lparr>chat_sessions := (chat_sessions st1)(user_id \<mapsto> history)\<rparr>)))"

text \<open>
  \<open>chat.send_message(m)\<close>: the call is recorded, and the gateway answers or raises.
\<close>

definition send_message :: "env \<Rightarrow> message \<Rightarrow> state \<Rightarrow> (pyexn + response) \<times> state" where
  "send_message e m st =
     (case gateway e (length (sent st)) of
        Inl err \<Rightarrow> (Inl (GatewayError err), st\<lparr>sent := sent st @ [m]\<rparr>)
      | Inr r \<Rightarrow> (Inr r, st\<lparr>sent := sent st @ [m]\<rparr>))"

text \<open>
  The leading part of a response, when \<open>response.candidates\<close> and the parts of its first
  candidate are both non-empty.
\<close>

definition leading_part :: "response \<Rightarrow> part option" where
  "leading_part r =
     (case candidates r of
        [] \<Rightarrow> None
      | c # _ \<Rightarrow> (case c of [] \<Rightarrow> None | p # _ \<Rightarrow> Some p))"

definition pending_call :: "response \<Rightarrow> function_call option" where
  "pending_call r = (case leading_part r of None \<Rightarrow> None | Some p \<Rightarrow> function_call p)"

text \<open>\<open>{key: value for key, value in fc.args.items()}\<close>.\<close>

definition dict_of :: "args \<Rightarrow> args" where
  "dict_of items = foldl (\<lambda>d kv. AList.update (fst kv) (snd kv) d) [] items"

definition inject_user_id :: "string \<Rightarrow> string \<Rightarrow> args \<Rightarrow> args" where
  "inject_user_id tool_name user_id tool_args =
     (if tool_name \<in> set [''save_preference'', ''load_preferences'']
      then AList.update ''user_id'' (PStr user_id) tool_args
      else tool_args)"

datatype loop_exit = Break response | Raised pyexn

text \<open>
  The \<open>while True\<close> loop of \<open>chat_endpoint\<close>, from the current \<open>response\<close>. The first
  argument bounds the number of rounds; \<open>None\<close> is a loop that has not left within it.
\<close>

fun dispatch_loop ::
  "nat \<Rightarrow> env \<Rightarrow> string \<Rightarrow> state \<Rightarrow> response \<Rightarrow> (loop_exit \<times> state) option" where
  "dispatch_loop 0 e user_id st response = None"
| "dispatch_loop (Suc n) e user_id st response =
     (case pending_call response of
        None \<Rightarrow> Some (Break response, st)
      | Some (FunctionCall tool_name fc_args) \<Rightarrow>
         (let tool_args = dict_of fc_args in
          if tool_name \<notin> set tool_registry then
            (case send_message e
                    (FunctionResponse tool_name (Error (''Unknown tool: '' @ tool_name))) st of
               (Inl x, st1) \<Rightarrow> Some (Raised x, st1)
             | (Inr r, st1) \<Rightarrow> dispatch_loop n e user_id st1 r)
          else
            (let tool_args2 = inject_user_id tool_name user_id tool_args;
                 (res, st1) = call_tool e tool_name tool_args2 st;
                 (tried, st2) =
                    (case res of
                       Inl x \<Rightarrow> (Inl x, st1)
                     | Inr tool_result \<Rightarrow>
                         send_message e (FunctionResponse tool_name (Result tool_result)) st1)
             in case tried of
                  Inr r \<Rightarrow> dispatch_loop n e user_id st2 r
                | Inl x \<Rightarrow>
                   (case send_message e
                           (FunctionResponse tool_name
                              (Error (''Error executing tool: '' @ str_exn x))) st2 of
                      (Inl x', st3) \<Rightarrow> Some (Raised x', st3)
                    | (Inr r, st3) \<Rightarrow> dispatch_loop n e user_id st3 r))))"

record chat_request =
  user_id :: string
  message :: string

record chat_response =
  resp_user_id :: string
  response :: string

datatype endpoint_result = Returned chat_response | Escaped pyexn

definition final_response :: "response \<Rightarrow> string" where
  "final_response r =
     (case leading_part r of
        None \<Rightarrow> ''Sorry, I encountered an error.''
      | Some p \<Rightarrow> (if part_text p \<noteq> [] then part_text p else ''Sorry, I encountered an error.''))"

text \<open>
  \<open>chat_endpoint(request)\<close>: the returned body, or the exception that leaves the function.
\<close>

definition chat_endpoint ::
  "nat \<Rightarrow> env \<Rightarrow> chat_request \<Rightarrow> state \<Rightarrow> (endpoint_result \<times> state) option" where
  "chat_endpoint n e request st =
     (let (chat, st1) = get_chat_session (user_id request) st in
      case send_message e (UserMessage (message request)) st1 of
        (Inl x, st2) \<Rightarrow>
          Some (Returned \<lparr>resp_user_id = user_id request,
                          response = ''Sorry, I encountered an error: '' @ str_exn x\<rparr>, st2)
      | (Inr r, st2) \<Rightarrow>
          (case dispatch_loop n e (user_id request) st2 r of
             None \<Rightarrow> None
           | Some (Raised x, st3) \<Rightarrow> Some (Escaped x, st3)
           | Some (Break r', st3) \<Rightarrow>
               Some (Returned \<lparr>resp_user_id = user_id request,
                               response = final_response r'\<rparr>, st3)))"

section \<open>Concrete runs\<close>

text \<open>
  A gateway that answers from a script, and raises once the script is used up; an
  environment around it whose external handlers all return \<open>ok\<close>; and the state of a
  process that has just started with an empty preference store.
\<close>

definition scripted :: "(string + response) list \<Rightarrow> nat \<Rightarrow> string + response" where
  "scripted rs i = (if i < length rs then rs ! i else Inl ''gateway unreachable'')"

definition text_response :: "string \<Rightarrow> response" where
  "text_response s = \<lparr>candidates = [[\<lparr>part_text = s, function_call = None\<rparr>]]\<rparr>"

definition call_response :: "string \<Rightarrow> args \<Rightarrow> response" where
  "call_response tool_name a =
     \<lparr>candidates = [[\<lparr>part_text = [], function_call = Some (FunctionCall tool_name a)\<rparr>]]\<rparr>"

definition ext_ok :: "nat \<Rightarrow> string \<Rightarrow> args \<Rightarrow> pyexn + tool_output" where
  "ext_ok i tool_name a = Inr (Plain ''ok'')"

definition not_a_string :: "pyval \<Rightarrow> string" where
  "not_a_string v = ''Input should be a valid string''"

definition demo_env :: "(string + response) list \<Rightarrow> env" where
  "demo_env rs = \<lparr>gateway = scripted rs, ext_tool = ext_ok, validation_msg = not_a_string\<rparr>"

definition fresh_state :: state where
  "fresh_state = \<lparr>chat_sessions = Map.empty, prefs_db = \<lparr>docstore = [], fault = None\<rparr>,
                    sent = [], tool_calls = []\<rparr>"

definition state_with_docs :: "doc list \<Rightarrow> state" where
  "state_with_docs ds = fresh_state\<lparr>prefs_db := \<lparr>docstore = ds, fault = None\<rparr>\<rparr>"

section \<open>Properties\<close>

subsection \<open>Auxiliary facts\<close>

lemma missing_msg_one:
  "missing_msg f [p] = f @ ''() missing 1 required positional argument: '' @ quoted p"
  by (simp add: missing_msg_def show_count_def)

lemmas run_defs = chat_endpoint_def get_chat_session_def load_preferences_def save_preference_def
  log_call_def send_message_def demo_env_def scripted_def fresh_state_def state_with_docs_def
  text_response_def call_response_def pending_call_def leading_part_def tool_registry_def
  available_tools_def dict_of_def inject_user_id_def call_tool_def bind_args_def arg_or_none_def
  final_response_def system_error_obj_def prefs_turns_def ext_ok_def not_a_string_def
  missing_msg_one unexpected_msg_def quoted_def
  Let_def eval_nat_numeral

lemma sent_log_call: "sent (log_call name a st) = sent st"
  by (simp add: log_call_def)

lemma sent_load_preferences: "sent (snd (load_preferences u st)) = sent st"
  by (simp add: load_preferences_def Let_def sent_log_call split: option.splits)

lemma sent_save_preference: "sent (snd (save_preference p u e st)) = sent st"
  by (simp add: save_preference_def Let_def log_call_def split: option.splits pyval.splits)

lemma sent_call_tool: "sent (snd (call_tool e name a st)) = sent st"
proof -
  have l: "\<And>j s'. load_preferences (arg_or_none a ''user_id'') st = (j, s') \<Longrightarrow> sent s' = sent st"
    using sent_load_preferences[of "arg_or_none a ''user_id''" st] by simp
  have s: "\<And>out s'. save_preference (arg_or_none a ''preference'') (arg_or_none a ''user_id'') e st
              = (out, s') \<Longrightarrow> sent s' = sent st"
    using sent_save_preference[of "arg_or_none a ''preference''" "arg_or_none a ''user_id''" e st]
    by simp
  show ?thesis
    by (auto simp: call_tool_def sent_log_call split: option.splits sum.splits prod.splits
        dest: l s)
qed

lemma send_message_Inr:
  "gateway e (length (sent st)) = Inr r \<Longrightarrow>
   send_message e m st = (Inr r, st\<lparr>sent := sent st @ [m]\<rparr>)"
  by (simp add: send_message_def)

lemma send_message_raises:
  "send_message e m st = (Inl x, st') \<Longrightarrow> \<exists>err. x = GatewayError err"
  by (auto simp: send_message_def split: sum.splits)

lemma dispatch_loop_Raised:
  "dispatch_loop n e uid st r = Some (Raised x, st') \<Longrightarrow> \<exists>err. x = GatewayError err"
proof (induction n arbitrary: st r)
  case 0
  then show ?case by simp
next
  case (Suc n)
  then show ?case
    by (auto simp: Let_def split: option.splits function_call.splits if_splits prod.splits sum.splits
        dest: send_message_raises)
qed

lemma dispatch_loop_Break:
  "dispatch_loop n e uid st r = Some (Break r', st') \<Longrightarrow> pending_call r' = None"
proof (induction n arbitrary: st r)
  case 0
  then show ?case by simp
next
  case (Suc n)
  then show ?case
    by (auto simp: Let_def split: option.splits function_call.splits if_splits prod.splits sum.splits)
qed

lemma chat_endpoint_Escaped:
  "chat_endpoint n e req st = Some (Escaped x, st') \<Longrightarrow> \<exists>err. x = GatewayError err"
  by (auto simp: chat_endpoint_def split: prod.splits sum.splits option.splits loop_exit.splits
      dest: dispatch_loop_Raised)

lemma one_round:
  assumes "pending_call r = Some fc" and "gateway e (length (sent st)) = Inr r'"
  shows "\<exists>st1. length (sent st1) = Suc (length (sent st)) \<and>
           dispatch_loop (Suc n) e uid st r = dispatch_loop n e uid st1 r'"
proof (cases fc)
  case (FunctionCall name a)
  show ?thesis
  proof (cases "name \<in> set tool_registry")
    case False
    with assms FunctionCall show ?thesis
      by (intro exI[of _ "st\<lparr>sent := sent st @ [FunctionResponse name (Error (''Unknown tool: '' @ name))]\<rparr>"])
         (simp add: send_message_Inr)
  next
    case True
    obtain res st1 where ct: "call_tool e name (inject_user_id name uid (dict_of a)) st = (res, st1)"
      by (cases "call_tool e name (inject_user_id name uid (dict_of a)) st")
    then have s1: "sent st1 = sent st"
      using sent_call_tool[of e name "inject_user_id name uid (dict_of a)" st] by simp
    with assms have g: "gateway e (length (sent st1)) = Inr r'" by simp
    show ?thesis
    proof (cases res)
      case (Inl x)
      with assms FunctionCall True ct g s1 show ?thesis
        by (intro exI[of _ "st1\<lparr>sent := sent st1 @ [FunctionResponse name (Error (''Error executing tool: '' @ str_exn x))]\<rparr>"])
           (simp add: send_message_Inr)
    next
      case (Inr out)
      with assms FunctionCall True ct g s1 show ?thesis
        by (intro exI[of _ "st1\<lparr>sent := sent st1 @ [FunctionResponse name (Result out)]\<rparr>"])
           (simp add: send_message_Inr)
    qed
  qed
qed

lemma rounds:
  assumes "\<forall>j<length rs. gateway e (length (sent st) + j) = Inr (rs ! j)"
    and "\<forall>j<length rs. pending_call ((r0 # rs) ! j) \<noteq> None"
    and "pending_call (last (r0 # rs)) = None"
    and "length rs < n"
  shows "\<exists>st'. dispatch_loop n e uid st r0 = Some (Break (last (r0 # rs)), st') \<and>
           length (sent st') = length (sent st) + length rs"
  using assms
proof (induction rs arbitrary: r0 st n)
  case Nil
  then obtain m where "n = Suc m" by (cases n) auto
  with Nil show ?case by simp
next
  case (Cons r1 rs)
  then obtain m where n: "n = Suc m" and m: "length rs < m" by (cases n) auto
  from Cons.prems(2) have "pending_call r0 \<noteq> None" by auto
  then obtain fc where fc: "pending_call r0 = Some fc" by auto
  from Cons.prems(1) have g0: "gateway e (length (sent st)) = Inr r1" by auto
  from one_round[OF fc g0, of m uid] obtain st1 where
    l1: "length (sent st1) = Suc (length (sent st))" and
    step: "dispatch_loop (Suc m) e uid st r0 = dispatch_loop m e uid st1 r1" by blast
  have a1: "\<forall>j<length rs. gateway e (length (sent st1) + j) = Inr (rs ! j)"
  proof (intro allI impI)
    fix j assume "j < length rs"
    then have "gateway e (length (sent st) + Suc j) = Inr ((r1 # rs) ! Suc j)"
      using Cons.prems(1) by (metis Suc_less_eq length_Cons)
    then show "gateway e (length (sent st1) + j) = Inr (rs ! j)" using l1 by simp
  qed
  have a2: "\<forall>j<length rs. pending_call ((r1 # rs) ! j) \<noteq> None"
  proof (intro allI impI)
    fix j assume "j < length rs"
    then have "pending_call ((r0 # r1 # rs) ! Suc j) \<noteq> None"
      using Cons.prems(2) by (metis Suc_less_eq length_Cons)
    then show "pending_call ((r1 # rs) ! j) \<noteq> None" by simp
  qed
  have a3: "pending_call (last (r1 # rs)) = None" using Cons.prems(3) by simp
  from Cons.IH[OF a1 a2 a3 m, of] obtain st' where
    "dispatch_loop m e uid st1 r1 = Some (Break (last (r1 # rs)), st')"
    "length (sent st') = length (sent st1) + length rs" by blast
  with step n l1 show ?case by (intro exI[of _ st']) simp
qed

lemma role_policy_pair: "map role policy_pair = [User, Model]"
  by (simp add: policy_pair_def)

lemma role_prefs_turns: "map role (prefs_turns ps) = [User, Model]"
  by (simp add: prefs_turns_def)

lemma load_preferences_state:
  "snd (load_preferences u st) = log_call ''load_preferences'' [(''user_id'', u)] st"
  by (simp add: load_preferences_def Let_def split: option.splits)

lemma get_chat_session_new:
  assumes "chat_sessions st uid = None"
  shows "get_chat_session uid st =
    (let history = (case fst (load_preferences (PStr uid) st) of
                      JList ps \<Rightarrow> if ps \<noteq> [] then policy_pair @ prefs_turns ps else policy_pair
                    | JObject _ \<Rightarrow> policy_pair)
     in (history, (log_call ''load_preferences'' [(''user_id'', PStr uid)] st)
                    \<lparr>chat_sessions := (chat_sessions st)(uid \<mapsto> history)\<rparr>))"
proof -
  obtain j s1 where l: "load_preferences (PStr uid) st = (j, s1)"
    by (cases "load_preferences (PStr uid) st")
  then have s1: "s1 = log_call ''load_preferences'' [(''user_id'', PStr uid)] st"
    using load_preferences_state[of "PStr uid" st] by simp
  have cs: "chat_sessions s1 = chat_sessions st" by (simp add: s1 log_call_def)
  show ?thesis using assms l cs
    by (simp add: get_chat_session_def Let_def s1 split: json.splits)
qed

lemma keys_delete:
  "\<not> P k \<Longrightarrow> filter P (map fst (AList.delete k a)) = filter P (map fst a)"
  by (induction a) auto

lemma keys_update:
  "\<not> P k \<Longrightarrow> filter P (map fst (AList.update k v a)) = filter P (map fst a)"
  by (induction a) auto

lemma keys_update_delete:
  "\<not> P k \<Longrightarrow> filter P (map fst (AList.update k v a)) = filter P (map fst (AList.delete k a))"
  by (simp add: keys_delete keys_update)

lemma map_of_update_delete:
  "map_of (AList.update k v a) = (map_of (AList.delete k a))(k \<mapsto> v)"
  by (simp add: AList.update_conv' AList.delete_conv')

lemma bind_args_update:
  "k \<in> set params \<Longrightarrow>
   bind_args f params required (AList.update k v a) =
     (case filter (\<lambda>k. k \<notin> set params) (map fst (AList.delete k a)) of
        k' # _ \<Rightarrow> Inl (HandlerError (unexpected_msg f k'))
      | [] \<Rightarrow>
         (case filter (\<lambda>p. ((map_of (AList.delete k a))(k \<mapsto> v)) p = None) required of
            [] \<Rightarrow> Inr ()
          | ms \<Rightarrow> Inl (HandlerError (missing_msg f ms))))"
  unfolding bind_args_def
  by (simp only: keys_update_delete[of "\<lambda>k. k \<notin> set params" k, simplified] map_of_update_delete)

lemma arg_or_none_update:
  "arg_or_none (AList.update k v a) k' =
     (case ((map_of (AList.delete k a))(k \<mapsto> v)) k' of None \<Rightarrow> PNone | Some w \<Rightarrow> w)"
  by (simp only: arg_or_none_def map_of_update_delete)

lemma call_tool_injected:
  assumes "tool_name \<in> set [''save_preference'', ''load_preferences'']"
    and "AList.delete ''user_id'' a = AList.delete ''user_id'' a'"
  shows "call_tool e tool_name (inject_user_id tool_name uid a) st =
         call_tool e tool_name (inject_user_id tool_name uid a') st"
proof -
  from assms(1) have "tool_name = ''save_preference'' \<or> tool_name = ''load_preferences''" by simp
  then show ?thesis
  proof
    assume t: "tool_name = ''save_preference''"
    have m: "map_of available_tools ''save_preference''
               = Some ([''preference'', ''user_id''], [''preference''])"
      by (simp add: available_tools_def)
    have k: "''user_id'' \<in> set [''preference'', ''user_id'']" by simp
    show ?thesis
      unfolding call_tool_def inject_user_id_def t
      by (simp only: m option.case prod.case assms(2) bind_args_update[OF k] arg_or_none_update
          list.set insert_iff simp_thms if_True)
  next
    assume t: "tool_name = ''load_preferences''"
    have m: "map_of available_tools ''load_preferences'' = Some ([''user_id''], [])"
      by (simp add: available_tools_def)
    have k: "''user_id'' \<in> set [''user_id'']" by simp
    show ?thesis
      unfolding call_tool_def inject_user_id_def t
      by (simp only: m option.case prod.case assms(2) bind_args_update[OF k] arg_or_none_update
          list.set insert_iff simp_thms if_True)
  qed
qed

lemma preference_tools_registered:
  "tool_name \<in> set [''save_preference'', ''load_preferences''] \<Longrightarrow> tool_name \<in> set tool_registry"
  by (auto simp: tool_registry_def available_tools_def)

lemma length_policy_pair: "length policy_pair = 2"
  by (simp add: policy_pair_def)

lemma initial_send_failure_returned:
  assumes "get_chat_session (user_id req) st = (chat, st1)"
    and "gateway e (length (sent st1)) = Inl err"
  shows "chat_endpoint n e req st =
     Some (Returned \<lparr>resp_user_id = user_id req,
                     response = ''Sorry, I encountered an error: '' @ err\<rparr>,
           st1\<lparr>sent := sent st1 @ [UserMessage (message req)]\<rparr>)"
  using assms by (simp add: chat_endpoint_def send_message_def)

subsection \<open>The claims\<close>

text \<open>
  C1. A failure of the gateway inside the loop is not returned as an error string. First
  run: the gateway answers the user's message with a request for the unregistered tool
  \<open>book_flight\<close> and raises on the next call of \<open>send_message\<close>, the one that
  reports the unknown tool; the exception leaves \<open>chat_endpoint\<close> and no body is
  returned. Second run: the gateway requests \<open>get_weather\<close>, raises on the send of its
  result and answers the send after that; the failed call is followed by another call,
  which reports the gateway's failure as a failure of the tool, and the body returned
  holds the model's text and no error string.
\<close>

theorem gateway_failure_in_loop_escapes:
  "map_option fst (chat_endpoint 2
      (demo_env [Inr (call_response ''book_flight'' []), Inl ''503 Service Unavailable''])
      \<lparr>user_id = ''u1'', message = ''Plan a trip to Lisbon''\<rparr> fresh_state)
   = Some (Escaped (GatewayError ''503 Service Unavailable'')) \<and>
   map_option fst (chat_endpoint 2
      (demo_env [Inr (call_response ''get_weather'' [(''city'', PStr ''Lisbon'')]),
                 Inl ''503 Service Unavailable'', Inr (text_response ''Here is the plan.'')])
      \<lparr>user_id = ''u1'', message = ''Plan a trip to Lisbon''\<rparr> fresh_state)
   = Some (Returned \<lparr>resp_user_id = ''u1'', response = ''Here is the plan.''\<rparr>) \<and>
   map_option (sent \<circ> snd) (chat_endpoint 2
      (demo_env [Inr (call_response ''get_weather'' [(''city'', PStr ''Lisbon'')]),
                 Inl ''503 Service Unavailable'', Inr (text_response ''Here is the plan.'')])
      \<lparr>user_id = ''u1'', message = ''Plan a trip to Lisbon''\<rparr> fresh_state)
   = Some [UserMessage ''Plan a trip to Lisbon'',
           FunctionResponse ''get_weather'' (Result (Plain ''ok'')),
           FunctionResponse ''get_weather''
             (Error ''Error executing tool: 503 Service Unavailable'')]"
  by (simp add: run_defs policy_pair_def)

text \<open>
  C2. For a \<open>user_id\<close> without a session, the history of the session that
  \<open>get_chat_session\<close> creates and stores begins with the two turns of the system policy
  (the policy statement with role user, the acknowledgment with role model). What follows
  them is nothing, or exactly the two turns seeding a non-empty list of preferences, with
  roles user and model. No message has been sent to the gateway by then.
\<close>

theorem new_session_history_shape:
  "chat_sessions st uid = None \<Longrightarrow>
   get_chat_session uid st = (h, st') \<Longrightarrow>
   take 2 h = policy_pair \<and> map role (take 2 h) = [User, Model] \<and>
   (drop 2 h = [] \<or>
    (\<exists>ps. ps \<noteq> [] \<and> drop 2 h = prefs_turns ps \<and> map role (drop 2 h) = [User, Model])) \<and>
   chat_sessions st' uid = Some h \<and> sent st' = sent st"
proof -
  assume n: "chat_sessions st uid = None" and g: "get_chat_session uid st = (h, st')"
  have lp: "length policy_pair = 2" by (simp add: policy_pair_def)
  show ?thesis
  proof (cases "fst (load_preferences (PStr uid) st)")
    case (JList ps)
    with g get_chat_session_new[OF n] lp show ?thesis
      by (cases "ps = []") (auto simp: Let_def log_call_def role_policy_pair role_prefs_turns prefs_turns_def)
  next
    case (JObject x)
    with g get_chat_session_new[OF n] lp show ?thesis
      by (auto simp: Let_def log_call_def role_policy_pair)
  qed
qed

theorem new_session_history_shape_witness:
  "chat_sessions (state_with_docs
       [\<lparr>page_content = ''I am vegetarian'', meta_user_id = PStr ''u1''\<rparr>,
        \<lparr>page_content = ''I like hiking'', meta_user_id = PStr ''u2''\<rparr>,
        \<lparr>page_content = ''museums'', meta_user_id = PStr ''u1''\<rparr>]) ''u1'' = None \<and>
   fst (get_chat_session ''u1'' (state_with_docs
       [\<lparr>page_content = ''I am vegetarian'', meta_user_id = PStr ''u1''\<rparr>,
        \<lparr>page_content = ''I like hiking'', meta_user_id = PStr ''u2''\<rparr>,
        \<lparr>page_content = ''museums'', meta_user_id = PStr ''u1''\<rparr>]))
     = policy_pair @ prefs_turns [''I am vegetarian'', ''museums''] \<and>
   take 2 (policy_pair @ prefs_turns [''I am vegetarian'', ''museums'']) = policy_pair \<and>
   drop 2 (policy_pair @ prefs_turns [''I am vegetarian'', ''museums''])
     = prefs_turns [''I am vegetarian'', ''museums'']"
proof -
  let ?st = "state_with_docs
       [\<lparr>page_content = ''I am vegetarian'', meta_user_id = PStr ''u1''\<rparr>,
        \<lparr>page_content = ''I like hiking'', meta_user_id = PStr ''u2''\<rparr>,
        \<lparr>page_content = ''museums'', meta_user_id = PStr ''u1''\<rparr>]"
  let ?h = "policy_pair @ prefs_turns [''I am vegetarian'', ''museums'']"
  have h1: "chat_sessions ?st ''u1'' = None" by (simp add: run_defs)
  have h2: "fst (get_chat_session ''u1'' ?st) = ?h" by (simp add: run_defs)
  have h3: "get_chat_session ''u1'' ?st = (?h, snd (get_chat_session ''u1'' ?st))"
    using h2 by (metis prod.collapse)
  from new_session_history_shape [OF h1 h3]
  have "take 2 ?h = policy_pair"
    by blast
  moreover have "drop 2 ?h = prefs_turns [''I am vegetarian'', ''museums'']"
    by (simp add: policy_pair_def)
  ultimately show ?thesis using h1 h2 by blast
qed

text \<open>
  C3. At session creation, when \<open>load_preferences\<close> for the \<open>user_id\<close> returns the
  list \<open>prefs\<close>: if it is not empty, the history is the policy pair followed by one user
  turn holding all of them joined by \<open>; \<close> and one model acknowledgment (four turns);
  if it is empty, the history is the policy pair alone (two turns).
\<close>

theorem preference_seeding:
  "chat_sessions st uid = None \<Longrightarrow>
   fst (load_preferences (PStr uid) st) = JList prefs \<Longrightarrow>
   fst (get_chat_session uid st) =
     policy_pair @
       (if prefs \<noteq> [] then
          [\<lparr>role = User, parts =
              [''Please remember these are my long-term preferences: '' @ join ''; '' prefs]\<rparr>,
           \<lparr>role = Model, parts = [''Understood. I have loaded your preferences.'']\<rparr>]
        else []) \<and>
   length (fst (get_chat_session uid st)) = 2 + (if prefs \<noteq> [] then 2 else 0)"
  using get_chat_session_new[of st uid]
  by (simp add: Let_def prefs_turns_def policy_pair_def)

theorem preference_seeding_witness:
  "chat_sessions (state_with_docs
       [\<lparr>page_content = ''I am vegetarian'', meta_user_id = PStr ''u1''\<rparr>,
        \<lparr>page_content = ''museums'', meta_user_id = PStr ''u1''\<rparr>]) ''u1'' = None \<and>
   fst (load_preferences (PStr ''u1'') (state_with_docs
       [\<lparr>page_content = ''I am vegetarian'', meta_user_id = PStr ''u1''\<rparr>,
        \<lparr>page_content = ''museums'', meta_user_id = PStr ''u1''\<rparr>]))
     = JList [''I am vegetarian'', ''museums''] \<and>
   fst (get_chat_session ''u1'' (state_with_docs
       [\<lparr>page_content = ''I am vegetarian'', meta_user_id = PStr ''u1''\<rparr>,
        \<lparr>page_content = ''museums'', meta_user_id = PStr ''u1''\<rparr>]))
     = policy_pair @
         [\<lparr>role = User, parts =
            [''Please remember these are my long-term preferences: I am vegetarian; museums'']\<rparr>,
          \<lparr>role = Model, parts = [''Understood. I have loaded your preferences.'']\<rparr>] \<and>
   length (fst (get_chat_session ''u1'' (state_with_docs
       [\<lparr>page_content = ''I am vegetarian'', meta_user_id = PStr ''u1''\<rparr>,
        \<lparr>page_content = ''museums'', meta_user_id = PStr ''u1''\<rparr>]))) = 4 \<and>
   chat_sessions fresh_state ''u1'' = None \<and>
   fst (load_preferences (PStr ''u1'') fresh_state) = JList [] \<and>
   fst (get_chat_session ''u1'' fresh_state) = policy_pair"
proof -
  let ?st = "state_with_docs
       [\<lparr>page_content = ''I am vegetarian'', meta_user_id = PStr ''u1''\<rparr>,
        \<lparr>page_content = ''museums'', meta_user_id = PStr ''u1''\<rparr>]"
  have h1: "chat_sessions ?st ''u1'' = None" by (simp add: run_defs)
  have h2: "fst (load_preferences (PStr ''u1'') ?st) = JList [''I am vegetarian'', ''museums'']"
    by (simp add: run_defs)
  have k1: "chat_sessions fresh_state ''u1'' = None" by (simp add: run_defs)
  have k2: "fst (load_preferences (PStr ''u1'') fresh_state) = JList []" by (simp add: run_defs)
  from preference_seeding [OF h1 h2]
  have a: "fst (get_chat_session ''u1'' ?st)
     = policy_pair @
         [\<lparr>role = User, parts =
            [''Please remember these are my long-term preferences: I am vegetarian; museums'']\<rparr>,
          \<lparr>role = Model, parts = [''Understood. I have loaded your preferences.'']\<rparr>]"
    and b: "length (fst (get_chat_session ''u1'' ?st)) = 4"
    by (simp_all add: length_policy_pair)
  from preference_seeding [OF k1 k2]
  have c: "fst (get_chat_session ''u1'' fresh_state) = policy_pair"
    by simp
  from h1 h2 a b k1 k2 c show ?thesis by blast
qed

text \<open>
  C4. For a \<open>user_id\<close> that already has a session in \<open>chat_sessions\<close>,
  \<open>get_chat_session\<close> returns that session and leaves the whole state as it was: no
  history is changed, \<open>load_preferences\<close> is not called (the log of handler calls is
  the same), and no other entry of the session map is touched.
\<close>

theorem existing_session_returned_unchanged:
  "chat_sessions st uid = Some chat \<Longrightarrow> get_chat_session uid st = (chat, st)"
  by (simp add: get_chat_session_def)

theorem existing_session_returned_unchanged_witness:
  "chat_sessions (snd (get_chat_session ''u1'' fresh_state)) ''u1'' = Some policy_pair \<and>
   get_chat_session ''u1'' (snd (get_chat_session ''u1'' fresh_state))
     = (policy_pair, snd (get_chat_session ''u1'' fresh_state))"
proof -
  have h: "chat_sessions (snd (get_chat_session ''u1'' fresh_state)) ''u1'' = Some policy_pair"
    by (simp add: run_defs)
  show ?thesis
    using h existing_session_returned_unchanged [OF h] by simp
qed

text \<open>
  C5. When the leading part of the response requests a tool whose name is not in
  \<open>tool_registry\<close>, one round of the loop enters no handler and changes nothing but the
  list of messages sent: it sends the gateway the function response whose error is
  \<open>Unknown tool: \<close> followed by the requested name, and goes on with the response the
  gateway returns.
\<close>

theorem unknown_tool_reported_to_gateway:
  "pending_call r = Some (FunctionCall tool_name a) \<Longrightarrow>
   tool_name \<notin> set tool_registry \<Longrightarrow>
   gateway e (length (sent st)) = Inr r' \<Longrightarrow>
   dispatch_loop (Suc n) e uid st r =
     dispatch_loop n e uid
       (st\<lparr>sent := sent st @
            [FunctionResponse tool_name (Error (''Unknown tool: '' @ tool_name))]\<rparr>) r'"
  by (simp add: send_message_Inr)

theorem unknown_tool_reported_to_gateway_witness:
  "pending_call (call_response ''book_flight'' []) = Some (FunctionCall ''book_flight'' []) \<and>
   ''book_flight'' \<notin> set tool_registry \<and>
   gateway (demo_env [Inr (text_response ''I cannot book flights.'')]) (length (sent fresh_state))
     = Inr (text_response ''I cannot book flights.'') \<and>
   dispatch_loop (Suc 1) (demo_env [Inr (text_response ''I cannot book flights.'')]) ''u1''
       fresh_state (call_response ''book_flight'' [])
     = Some (Break (text_response ''I cannot book flights.''),
             fresh_state\<lparr>sent := [FunctionResponse ''book_flight''
                                      (Error ''Unknown tool: book_flight'')]\<rparr>)"
proof -
  have h1: "pending_call (call_response ''book_flight'' []) = Some (FunctionCall ''book_flight'' [])"
    by (simp add: run_defs)
  have h2: "''book_flight'' \<notin> set tool_registry"
    by (simp add: run_defs)
  have h3: "gateway (demo_env [Inr (text_response ''I cannot book flights.'')])
              (length (sent fresh_state)) = Inr (text_response ''I cannot book flights.'')"
    by (simp add: run_defs)
  show ?thesis
    using h1 h2 h3 unknown_tool_reported_to_gateway [OF h1 h2 h3, of 1 "''u1''"]
    by (simp add: run_defs)
qed

text \<open>
  C6. When the call of a registered handler raises, the loop sends the gateway the function
  response whose error is \<open>Error executing tool: \<close> followed by the exception's
  message, and goes on with the response the gateway returns. No exception raised by a
  handler ever leaves \<open>chat_endpoint\<close>.
\<close>

theorem handler_exception_reported_to_gateway:
  "(pending_call r = Some (FunctionCall tool_name a) \<and>
    tool_name \<in> set tool_registry \<and>
    call_tool e tool_name (inject_user_id tool_name uid (dict_of a)) st = (Inl x, st1) \<and>
    gateway e (length (sent st1)) = Inr r'
    \<longrightarrow> dispatch_loop (Suc n) e uid st r =
          dispatch_loop n e uid
            (st1\<lparr>sent := sent st1 @
                [FunctionResponse tool_name
                   (Error (''Error executing tool: '' @ str_exn x))]\<rparr>) r')
   \<and> (\<forall>k req s m s'. chat_endpoint k e req s \<noteq> Some (Escaped (HandlerError m), s'))"
proof (intro conjI impI allI)
  assume "pending_call r = Some (FunctionCall tool_name a) \<and>
    tool_name \<in> set tool_registry \<and>
    call_tool e tool_name (inject_user_id tool_name uid (dict_of a)) st = (Inl x, st1) \<and>
    gateway e (length (sent st1)) = Inr r'"
  then show "dispatch_loop (Suc n) e uid st r =
          dispatch_loop n e uid
            (st1\<lparr>sent := sent st1 @
                [FunctionResponse tool_name
                   (Error (''Error executing tool: '' @ str_exn x))]\<rparr>) r'"
    by (simp add: send_message_Inr)
next
  fix k req s m s'
  show "chat_endpoint k e req s \<noteq> Some (Escaped (HandlerError m), s')"
    using chat_endpoint_Escaped[of k e req s "HandlerError m" s'] by auto
qed

theorem handler_exception_reported_to_gateway_witness:
  "pending_call (call_response ''save_preference'' []) = Some (FunctionCall ''save_preference'' []) \<and>
   ''save_preference'' \<in> set tool_registry \<and>
   call_tool (demo_env [Inr (text_response ''What should I remember?'')]) ''save_preference''
       (inject_user_id ''save_preference'' ''u1'' (dict_of [])) fresh_state
     = (Inl (HandlerError (missing_msg ''save_preference'' [''preference''])), fresh_state) \<and>
   gateway (demo_env [Inr (text_response ''What should I remember?'')]) (length (sent fresh_state))
     = Inr (text_response ''What should I remember?'') \<and>
   dispatch_loop (Suc 1) (demo_env [Inr (text_response ''What should I remember?'')]) ''u1''
       fresh_state (call_response ''save_preference'' [])
     = Some (Break (text_response ''What should I remember?''),
             fresh_state\<lparr>sent := [FunctionResponse ''save_preference''
               (Error (''Error executing tool: save_preference() missing 1 required positional argument: ''
                       @ quoted ''preference''))]\<rparr>)"
proof -
  let ?e = "demo_env [Inr (text_response ''What should I remember?'')]"
  have h: "pending_call (call_response ''save_preference'' []) = Some (FunctionCall ''save_preference'' []) \<and>
    ''save_preference'' \<in> set tool_registry \<and>
    call_tool ?e ''save_preference''
       (inject_user_id ''save_preference'' ''u1'' (dict_of [])) fresh_state
     = (Inl (HandlerError (missing_msg ''save_preference'' [''preference''])), fresh_state) \<and>
    gateway ?e (length (sent fresh_state)) = Inr (text_response ''What should I remember?'')"
    by (simp add: run_defs)
  show ?thesis
    using h handler_exception_reported_to_gateway
      [of "call_response ''save_preference'' []" "''save_preference''" "[]" ?e "''u1''"
          fresh_state "HandlerError (missing_msg ''save_preference'' [''preference''])" fresh_state
          "text_response ''What should I remember?''" 1, THEN conjunct1]
    by (simp add: run_defs)
qed

text \<open>
  C7. Let the current response and the gateway's next answers be \<open>r0 # rs\<close>, all of
  them but the last requesting a tool and the last not (its leading part is plain text, or
  it has no candidates or no parts). Then the loop, given more rounds than \<open>length rs\<close>,
  leaves by \<open>break\<close> with that last response after exactly \<open>length rs\<close> sends, one
  for each response that requested a tool. And whenever the loop leaves by \<open>break\<close>,
  the response it leaves with requests no tool.
\<close>

theorem dispatch_loop_terminates:
  "((\<forall>j<length rs. gateway e (length (sent st) + j) = Inr (rs ! j)) \<and>
    (\<forall>j<length rs. pending_call ((r0 # rs) ! j) \<noteq> None) \<and>
    pending_call (last (r0 # rs)) = None \<and> length rs < n
    \<longrightarrow> (\<exists>st'. dispatch_loop n e uid st r0 = Some (Break (last (r0 # rs)), st') \<and>
              length (sent st') = length (sent st) + length rs))
   \<and> (\<forall>k s r r' s'. dispatch_loop k e uid s r = Some (Break r', s') \<longrightarrow> pending_call r' = None)"
  using rounds[of rs e st r0 n uid] dispatch_loop_Break[of _ e uid] by blast

theorem dispatch_loop_terminates_witness:
  "gateway (demo_env [Inr (text_response ''Sunny in Lisbon.'')]) (length (sent fresh_state))
     = Inr (text_response ''Sunny in Lisbon.'') \<and>
   pending_call (call_response ''get_weather'' [(''city'', PStr ''Lisbon'')]) \<noteq> None \<and>
   pending_call (text_response ''Sunny in Lisbon.'') = None \<and>
   (\<exists>st'. dispatch_loop 2 (demo_env [Inr (text_response ''Sunny in Lisbon.'')]) ''u1''
            fresh_state (call_response ''get_weather'' [(''city'', PStr ''Lisbon'')])
          = Some (Break (text_response ''Sunny in Lisbon.''), st') \<and>
          length (sent st') = length (sent fresh_state) + 1) \<and>
   dispatch_loop 2 (demo_env [Inr (text_response ''Sunny in Lisbon.'')]) ''u1'' fresh_state
       (call_response ''get_weather'' [(''city'', PStr ''Lisbon'')])
     = Some (Break (text_response ''Sunny in Lisbon.''),
             fresh_state\<lparr>sent := [FunctionResponse ''get_weather'' (Result (Plain ''ok''))],
                          tool_calls := [(''get_weather'', [(''city'', PStr ''Lisbon'')])]\<rparr>)"
proof -
  let ?e = "demo_env [Inr (text_response ''Sunny in Lisbon.'')]"
  let ?r0 = "call_response ''get_weather'' [(''city'', PStr ''Lisbon'')]"
  let ?rs = "[text_response ''Sunny in Lisbon.'']"
  have g: "gateway ?e (length (sent fresh_state)) = Inr (text_response ''Sunny in Lisbon.'')"
    by (simp add: run_defs)
  have p0: "pending_call ?r0 \<noteq> None"
    by (simp add: run_defs)
  have run: "dispatch_loop 2 ?e ''u1'' fresh_state ?r0
     = Some (Break (text_response ''Sunny in Lisbon.''),
             fresh_state\<lparr>sent := [FunctionResponse ''get_weather'' (Result (Plain ''ok''))],
                          tool_calls := [(''get_weather'', [(''city'', PStr ''Lisbon'')])]\<rparr>)"
    by (simp add: run_defs)
  have p1: "pending_call (text_response ''Sunny in Lisbon.'') = None"
    using dispatch_loop_terminates [of ?rs ?e fresh_state ?r0 2 "''u1''", THEN conjunct2] run
    by blast
  have h: "(\<forall>j<length ?rs. gateway ?e (length (sent fresh_state) + j) = Inr (?rs ! j)) \<and>
     (\<forall>j<length ?rs. pending_call ((?r0 # ?rs) ! j) \<noteq> None) \<and>
     pending_call (last (?r0 # ?rs)) = None \<and> length ?rs < (2::nat)"
    using g p0 p1 by simp
  have ex: "\<exists>st'. dispatch_loop 2 ?e ''u1'' fresh_state ?r0
                = Some (Break (text_response ''Sunny in Lisbon.''), st') \<and>
              length (sent st') = length (sent fresh_state) + 1"
    using dispatch_loop_terminates [of ?rs ?e fresh_state ?r0 2 "''u1''", THEN conjunct1] h
    by simp
  from g p0 p1 ex run show ?thesis by blast
qed

text \<open>
  C8. For \<open>save_preference\<close> and \<open>load_preferences\<close>, the argument mapping handed to
  the handler has \<open>user_id\<close> equal to the request's. Two argument mappings that agree
  apart from their \<open>user_id\<close> entry become the same mapping, give the same call of the
  handler (result and state), and two responses requesting the tool with such mappings
  give the same run of the loop.
\<close>

theorem injected_user_id_overrides_model:
  "tool_name \<in> set [''save_preference'', ''load_preferences''] \<Longrightarrow>
   map_of (inject_user_id tool_name uid a) ''user_id'' = Some (PStr uid) \<and>
   (AList.delete ''user_id'' a = AList.delete ''user_id'' a' \<longrightarrow>
      map_of (inject_user_id tool_name uid a) = map_of (inject_user_id tool_name uid a') \<and>
      call_tool e tool_name (inject_user_id tool_name uid a) st =
        call_tool e tool_name (inject_user_id tool_name uid a') st) \<and>
   (pending_call r = Some (FunctionCall tool_name items) \<and>
    pending_call r' = Some (FunctionCall tool_name items') \<and>
    AList.delete ''user_id'' (dict_of items) = AList.delete ''user_id'' (dict_of items') \<longrightarrow>
      dispatch_loop n e uid st r = dispatch_loop n e uid st r')"
proof (intro conjI impI)
  assume t: "tool_name \<in> set [''save_preference'', ''load_preferences'']"
  show "map_of (inject_user_id tool_name uid a) ''user_id'' = Some (PStr uid)"
    using t by (simp add: inject_user_id_def AList.update_conv')
  {
    assume d: "AList.delete ''user_id'' a = AList.delete ''user_id'' a'"
    show "map_of (inject_user_id tool_name uid a) = map_of (inject_user_id tool_name uid a')"
      using t d by (simp add: inject_user_id_def map_of_update_delete)
    show "call_tool e tool_name (inject_user_id tool_name uid a) st =
        call_tool e tool_name (inject_user_id tool_name uid a') st"
      using call_tool_injected[OF t d] .
  }
  assume h: "pending_call r = Some (FunctionCall tool_name items) \<and>
    pending_call r' = Some (FunctionCall tool_name items') \<and>
    AList.delete ''user_id'' (dict_of items) = AList.delete ''user_id'' (dict_of items')"
  then have c: "call_tool e tool_name (inject_user_id tool_name uid (dict_of items)) st =
        call_tool e tool_name (inject_user_id tool_name uid (dict_of items')) st"
    using call_tool_injected[OF t] by blast
  show "dispatch_loop n e uid st r = dispatch_loop n e uid st r'"
  proof (cases n)
    case 0
    then show ?thesis by simp
  next
    case (Suc m)
    with h c preference_tools_registered[OF t] show ?thesis
      by (simp add: Let_def)
  qed
qed

theorem injected_user_id_overrides_model_witness:
  "''save_preference'' \<in> set [''save_preference'', ''load_preferences''] \<and>
   AList.delete ''user_id'' (dict_of [(''preference'', PStr ''museums''), (''user_id'', PStr ''mallory'')])
     = AList.delete ''user_id'' (dict_of [(''preference'', PStr ''museums'')]) \<and>
   map_of (inject_user_id ''save_preference'' ''u1''
             (dict_of [(''preference'', PStr ''museums''), (''user_id'', PStr ''mallory'')])) ''user_id''
     = Some (PStr ''u1'') \<and>
   pending_call (call_response ''save_preference''
                   [(''preference'', PStr ''museums''), (''user_id'', PStr ''mallory'')])
     = Some (FunctionCall ''save_preference''
                   [(''preference'', PStr ''museums''), (''user_id'', PStr ''mallory'')]) \<and>
   pending_call (call_response ''save_preference'' [(''preference'', PStr ''museums'')])
     = Some (FunctionCall ''save_preference'' [(''preference'', PStr ''museums'')]) \<and>
   dispatch_loop 2 (demo_env [Inr (text_response ''Saved.'')]) ''u1'' fresh_state
       (call_response ''save_preference''
          [(''preference'', PStr ''museums''), (''user_id'', PStr ''mallory'')])
     = dispatch_loop 2 (demo_env [Inr (text_response ''Saved.'')]) ''u1'' fresh_state
         (call_response ''save_preference'' [(''preference'', PStr ''museums'')]) \<and>
   map_option (docstore \<circ> prefs_db \<circ> snd)
     (dispatch_loop 2 (demo_env [Inr (text_response ''Saved.'')]) ''u1'' fresh_state
        (call_response ''save_preference''
           [(''preference'', PStr ''museums''), (''user_id'', PStr ''mallory'')]))
     = Some [\<lparr>page_content = ''museums'', meta_user_id = PStr ''u1''\<rparr>]"
proof -
  let ?a = "[(''preference'', PStr ''museums''), (''user_id'', PStr ''mallory'')]"
  let ?a' = "[(''preference'', PStr ''museums'')]"
  let ?e = "demo_env [Inr (text_response ''Saved.'')]"
  have h1: "''save_preference'' \<in> set [''save_preference'', ''load_preferences'']" by simp
  have h2: "AList.delete ''user_id'' (dict_of ?a) = AList.delete ''user_id'' (dict_of ?a')"
    by (simp add: dict_of_def AList.delete_eq)
  have h3: "pending_call (call_response ''save_preference'' ?a)
              = Some (FunctionCall ''save_preference'' ?a)"
    by (simp add: run_defs)
  have h4: "pending_call (call_response ''save_preference'' ?a')
              = Some (FunctionCall ''save_preference'' ?a')"
    by (simp add: run_defs)
  note t = injected_user_id_overrides_model [OF h1, of "''u1''" "dict_of ?a" "dict_of ?a'" ?e
      fresh_state "call_response ''save_preference'' ?a" ?a
      "call_response ''save_preference'' ?a'" ?a' 2]
  from t have c1: "map_of (inject_user_id ''save_preference'' ''u1'' (dict_of ?a)) ''user_id''
     = Some (PStr ''u1'')" by blast
  from t h2 h3 h4 have c2: "dispatch_loop 2 ?e ''u1'' fresh_state (call_response ''save_preference'' ?a)
     = dispatch_loop 2 ?e ''u1'' fresh_state (call_response ''save_preference'' ?a')" by blast
  have c3: "map_option (docstore \<circ> prefs_db \<circ> snd)
     (dispatch_loop 2 ?e ''u1'' fresh_state (call_response ''save_preference'' ?a))
     = Some [\<lparr>page_content = ''museums'', meta_user_id = PStr ''u1''\<rparr>]"
    by (simp add: run_defs)
  from h1 h2 c1 h3 h4 c2 c3 show ?thesis by blast
qed

text \<open>
  C9. If the response with which the loop leaves by \<open>break\<close> has no candidates, no
  parts in its first candidate, or an empty text in its leading part, \<open>chat_endpoint\<close>
  returns the body whose \<open>response\<close> is \<open>Sorry, I encountered an error.\<close>
\<close>

theorem empty_final_response_gives_apology:
  "get_chat_session (user_id req) st = (chat, st1) \<Longrightarrow>
   send_message e (UserMessage (message req)) st1 = (Inr r0, st2) \<Longrightarrow>
   dispatch_loop n e (user_id req) st2 r0 = Some (Break r, st3) \<Longrightarrow>
   candidates r = [] \<or> hd (candidates r) = [] \<or> part_text (hd (hd (candidates r))) = [] \<Longrightarrow>
   chat_endpoint n e req st =
     Some (Returned \<lparr>resp_user_id = user_id req,
                     response = ''Sorry, I encountered an error.''\<rparr>, st3)"
  by (auto simp: chat_endpoint_def final_response_def leading_part_def split: list.splits)

theorem empty_final_response_gives_apology_witness:
  "get_chat_session (user_id \<lparr>user_id = ''u1'', message = ''hi''\<rparr>) fresh_state
     = (policy_pair, snd (get_chat_session ''u1'' fresh_state)) \<and>
   send_message (demo_env [Inr \<lparr>candidates = []\<rparr>]) (UserMessage ''hi'')
       (snd (get_chat_session ''u1'' fresh_state))
     = (Inr \<lparr>candidates = []\<rparr>,
        (snd (get_chat_session ''u1'' fresh_state))\<lparr>sent := [UserMessage ''hi'']\<rparr>) \<and>
   dispatch_loop 1 (demo_env [Inr \<lparr>candidates = []\<rparr>]) ''u1''
       ((snd (get_chat_session ''u1'' fresh_state))\<lparr>sent := [UserMessage ''hi'']\<rparr>)
       \<lparr>candidates = []\<rparr>
     = Some (Break \<lparr>candidates = []\<rparr>,
             (snd (get_chat_session ''u1'' fresh_state))\<lparr>sent := [UserMessage ''hi'']\<rparr>) \<and>
   candidates \<lparr>candidates = []\<rparr> = [] \<and>
   chat_endpoint 1 (demo_env [Inr \<lparr>candidates = []\<rparr>]) \<lparr>user_id = ''u1'', message = ''hi''\<rparr>
       fresh_state
     = Some (Returned \<lparr>resp_user_id = ''u1'', response = ''Sorry, I encountered an error.''\<rparr>,
             (snd (get_chat_session ''u1'' fresh_state))\<lparr>sent := [UserMessage ''hi'']\<rparr>)"
proof -
  let ?req = "\<lparr>user_id = ''u1'', message = ''hi''\<rparr>"
  let ?e = "demo_env [Inr \<lparr>candidates = []\<rparr>]"
  let ?s1 = "snd (get_chat_session ''u1'' fresh_state)"
  let ?s2 = "?s1\<lparr>sent := [UserMessage ''hi'']\<rparr>"
  let ?r = "\<lparr>candidates = []\<rparr> :: response"
  have h1: "get_chat_session (user_id ?req) fresh_state = (policy_pair, ?s1)"
    by (simp add: run_defs)
  have h2: "send_message ?e (UserMessage (message ?req)) ?s1 = (Inr ?r, ?s2)"
    by (simp add: run_defs)
  have h3: "dispatch_loop 1 ?e (user_id ?req) ?s2 ?r = Some (Break ?r, ?s2)"
    by (simp add: run_defs)
  have h4: "candidates ?r = [] \<or> hd (candidates ?r) = [] \<or> part_text (hd (hd (candidates ?r))) = []"
    by simp
  from empty_final_response_gives_apology [OF h1 h2 h3 h4] h1 h2 h3
  show ?thesis by simp
qed

text \<open>
  C10, amended. Called with a \<open>user_id\<close> that is missing (\<open>None\<close>) or empty,
  \<open>load_preferences\<close> and \<open>save_preference\<close> return the JSON error object, whatever the
  store holds, and leave the store as it is. After the loop's injection, the test
  \<open>not user_id\<close> of the two handlers is false exactly when the request's \<open>user_id\<close> is
  not the empty string; then \<open>save_preference\<close> does not return the error object, and
  \<open>load_preferences\<close> on a store without fault returns a list.
\<close>

theorem user_id_error_branch:
  "(\<not> truthy u \<longrightarrow>
      load_preferences u st
        = (system_error_obj, log_call ''load_preferences'' [(''user_id'', u)] st) \<and>
      save_preference p u e st
        = (Dumps system_error_obj,
           log_call ''save_preference'' [(''user_id'', u), (''preference'', p)] st) \<and>
      prefs_db (snd (load_preferences u st)) = prefs_db st \<and>
      prefs_db (snd (save_preference p u e st)) = prefs_db st) \<and>
   (tool_name \<in> set [''save_preference'', ''load_preferences''] \<longrightarrow>
      truthy (arg_or_none (inject_user_id tool_name uid a) ''user_id'') = (uid \<noteq> [])) \<and>
   (uid \<noteq> [] \<longrightarrow>
      fst (save_preference p (PStr uid) e st) \<noteq> Dumps system_error_obj \<and>
      (fault (prefs_db st) = None \<longrightarrow> (\<exists>ps. fst (load_preferences (PStr uid) st) = JList ps)))"
proof (intro conjI impI)
  assume u: "\<not> truthy u"
  show "load_preferences u st
        = (system_error_obj, log_call ''load_preferences'' [(''user_id'', u)] st)"
    using u by (simp add: load_preferences_def Let_def)
  show "save_preference p u e st
        = (Dumps system_error_obj,
           log_call ''save_preference'' [(''user_id'', u), (''preference'', p)] st)"
    using u by (simp add: save_preference_def Let_def)
  show "prefs_db (snd (load_preferences u st)) = prefs_db st"
    using u by (simp add: load_preferences_def Let_def log_call_def)
  show "prefs_db (snd (save_preference p u e st)) = prefs_db st"
    using u by (simp add: save_preference_def Let_def log_call_def)
next
  assume "tool_name \<in> set [''save_preference'', ''load_preferences'']"
  then show "truthy (arg_or_none (inject_user_id tool_name uid a) ''user_id'') = (uid \<noteq> [])"
    by (simp add: inject_user_id_def arg_or_none_def AList.update_conv')
next
  assume n: "uid \<noteq> []"
  show "fst (save_preference p (PStr uid) e st) \<noteq> Dumps system_error_obj"
    using n by (simp add: save_preference_def Let_def split: pyval.splits option.splits)
  assume "fault (prefs_db st) = None"
  then show "\<exists>ps. fst (load_preferences (PStr uid) st) = JList ps"
    using n by (simp add: load_preferences_def Let_def log_call_def)
qed

theorem user_id_error_branch_witness:
  "\<not> truthy PNone \<and>
   load_preferences PNone (state_with_docs [\<lparr>page_content = ''I am vegetarian'', meta_user_id = PStr ''u1''\<rparr>])
     = (system_error_obj,
        log_call ''load_preferences'' [(''user_id'', PNone)]
          (state_with_docs [\<lparr>page_content = ''I am vegetarian'', meta_user_id = PStr ''u1''\<rparr>])) \<and>
   ''save_preference'' \<in> set [''save_preference'', ''load_preferences''] \<and>
   truthy (arg_or_none (inject_user_id ''save_preference'' ''u1''
                          [(''preference'', PStr ''museums''), (''user_id'', PStr [])]) ''user_id'') \<and>
   ''u1'' \<noteq> [] \<and>
   fault (prefs_db (state_with_docs [\<lparr>page_content = ''I am vegetarian'', meta_user_id = PStr ''u1''\<rparr>])) = None \<and>
   fst (load_preferences (PStr ''u1'')
          (state_with_docs [\<lparr>page_content = ''I am vegetarian'', meta_user_id = PStr ''u1''\<rparr>]))
     = JList [''I am vegetarian'']"
proof -
  let ?st = "state_with_docs [\<lparr>page_content = ''I am vegetarian'', meta_user_id = PStr ''u1''\<rparr>]"
  have h1: "\<not> truthy PNone" by simp
  have h2: "''save_preference'' \<in> set [''save_preference'', ''load_preferences'']" by simp
  have h3: "''u1'' \<noteq> []" by simp
  have h4: "fault (prefs_db ?st) = None" by (simp add: run_defs)
  note t = user_id_error_branch [of PNone ?st "PStr ''museums''" "demo_env []" "''save_preference''"
      "''u1''" "[(''preference'', PStr ''museums''), (''user_id'', PStr [])]"]
  from t h1 have a: "load_preferences PNone ?st
     = (system_error_obj, log_call ''load_preferences'' [(''user_id'', PNone)] ?st)" by blast
  from t h2 h3 have b: "truthy (arg_or_none (inject_user_id ''save_preference'' ''u1''
                          [(''preference'', PStr ''museums''), (''user_id'', PStr [])]) ''user_id'')"
    by blast
  from t h3 h4 have "\<exists>ps. fst (load_preferences (PStr ''u1'') ?st) = JList ps" by blast
  then have c: "fst (load_preferences (PStr ''u1'') ?st) = JList [''I am vegetarian'']"
    by (simp add: run_defs)
  from h1 a h2 b h3 h4 c show ?thesis by blast
qed

text \<open>
  C10 as stated fails: a request whose \<open>user_id\<close> is the empty string injects an empty
  \<open>user_id\<close>, and the error object of the branch is what the loop sends back to the gateway.
\<close>

theorem empty_user_id_reaches_error_branch:
  "\<not> truthy (arg_or_none (inject_user_id ''load_preferences'' [] []) ''user_id'') \<and>
   map_option (sent \<circ> snd)
     (chat_endpoint 2
        (demo_env [Inr (call_response ''load_preferences'' []), Inr (text_response ''done'')])
        \<lparr>user_id = [], message = ''hi''\<rparr> fresh_state)
   = Some [UserMessage ''hi'',
           FunctionResponse ''load_preferences'' (Result (Dumps system_error_obj))]"
  by (simp add: run_defs)

end
